theory Spec2Isabelle
  imports Complex_Main "HOL-Library.Word"
begin

section \<open>JavaScript strings\<close>

text \<open>
  A JavaScript string is a finite sequence of UTF-16 code units, and \<open>length\<close>, \<open>slice\<close>,
  \<open>split\<close>, \<open>includes\<close> and \<open>trim\<close> all work on code units. A string literal of the source is
  written \<open>js ''...''\<close>: the literals of this program are ASCII, one code unit per character.
\<close>

type_synonym jschar = "16 word"
type_synonym jsstring = "jschar list"

definition js :: "string \<Rightarrow> jsstring" where
  "js s = map of_char s"

text \<open>
  \<open>String.prototype.trim\<close> removes WhiteSpace and LineTerminator code points from both ends
  (ECMA-262, 22.1.3.32): TAB, LF, VT, FF, CR, SP, NBSP, U+1680, U+2000..U+200A, U+2028, U+2029,
  U+202F, U+205F, U+3000 and U+FEFF. All of them are single code units.
\<close>

definition isWhiteSpace :: "jschar \<Rightarrow> bool" where
  "isWhiteSpace c =
     (c \<in> set [0x0009, 0x000A, 0x000B, 0x000C, 0x000D, 0x0020, 0x00A0, 0x1680, 0x2028,
                0x2029, 0x202F, 0x205F, 0x3000, 0xFEFF]
      \<or> (0x2000 \<le> c \<and> c \<le> 0x200A))"

definition trim :: "jsstring \<Rightarrow> jsstring" where
  "trim s = rev (dropWhile isWhiteSpace (rev (dropWhile isWhiteSpace s)))"

text \<open>\<open>s.slice(0, n)\<close> for a literal \<open>n \<ge> 0\<close>: the first \<open>n\<close> code units, or all of \<open>s\<close>.\<close>

definition slice0 :: "jsstring \<Rightarrow> nat \<Rightarrow> jsstring" where
  "slice0 s n = take n s"

text \<open>\<open>s.includes(c)\<close> and \<open>s.split(c)\<close> for a separator \<open>c\<close> of one code unit.\<close>

definition includes_str :: "jsstring \<Rightarrow> jschar \<Rightarrow> bool" where
  "includes_str s c = (c \<in> set s)"

fun split :: "jsstring \<Rightarrow> jschar \<Rightarrow> jsstring list" where
  "split [] c = [] # []"
| "split (x # xs) c =
     (if x = c then [] # split xs c
      else (case split xs c of [] \<Rightarrow> [x] # [] | p # ps \<Rightarrow> (x # p) # ps))"

text \<open>\<open>a[0]\<close> on an array: \<open>undefined\<close> (here \<open>None\<close>) when the array is empty.\<close>

fun first :: "'a list \<Rightarrow> 'a option" where
  "first [] = None"
| "first (x # xs) = Some x"

text \<open>
  An optional string (\<open>string | undefined\<close>) is a \<open>jsstring option\<close>. It is truthy when it is
  present and not empty; \<open>a || b\<close> is \<open>a\<close> when \<open>a\<close> is truthy and \<open>b\<close> otherwise.
\<close>

fun truthy :: "jsstring option \<Rightarrow> bool" where
  "truthy None = False"
| "truthy (Some s) = (s \<noteq> [])"

definition or_else :: "jsstring option \<Rightarrow> jsstring option \<Rightarrow> jsstring option" where
  "or_else a b = (if truthy a then a else b)"

text \<open>A value interpolated into a template literal: \<open>undefined\<close> prints as its name.\<close>

fun interpolate :: "jsstring option \<Rightarrow> jsstring" where
  "interpolate None = js ''undefined''"
| "interpolate (Some s) = s"


section \<open>The types of \<open>src/lib/types/puter.ts\<close>\<close>

record PuterUser =
  uuid :: jsstring
  username :: jsstring
  email :: "jsstring option"
  email_confirmed :: "bool option"

datatype role = system | user | assistant

record PuterChatMessage =
  msg_role :: role
  msg_content :: jsstring

text \<open>
  The numbers of the options and of the usage report are only passed through, never computed
  with; \<open>temperature\<close> is kept as a rational.
\<close>

record PuterChatOptions =
  opt_model :: "jsstring option"
  opt_temperature :: "rat option"
  opt_max_tokens :: "nat option"
  opt_stream :: "bool option"

record usage =
  prompt_tokens :: nat
  completion_tokens :: nat

record PuterStreamChunk =
  chunk_text :: "jsstring option"

record PuterModel =
  pm_id :: jsstring
  pm_name :: "jsstring option"
  pm_provider :: "jsstring option"
  pm_endpoint :: "jsstring option"

record PuterCustomModel =
  cm_id :: jsstring
  cm_endpoint :: "jsstring option"

record error_info =
  err_message :: "jsstring option"
  err_code :: "jsstring option"

record PuterAuthState =
  as_isSignedIn :: bool
  as_user :: "PuterUser option"

text \<open>
  A thrown value: an \<open>Error\<close> with its message, the \<open>TypeError\<close> of a property read on
  \<open>undefined\<close> or \<open>null\<close>, or a value that is not an \<open>Error\<close>, kept as \<open>String(v)\<close>.
\<close>

datatype exn = Error jsstring | TypeError | NonError jsstring

text \<open>
  What \<open>puter.ai.chat\<close> resolves to. The declared type is a complete response or an async
  iterable of chunks; \<open>chat\<close> also looks for a \<open>success\<close> property and an \<open>error\<close> object on it.
  An async iterable is the list of chunks it yields, followed by its end: completion (\<open>None\<close>) or
  a rejection. \<open>Neither\<close> is any other value (no \<open>message\<close>, not iterable).
\<close>

datatype body =
    AsyncIterable "PuterStreamChunk list" "exn option"
  | ChatResponse jsstring "usage option"
  | Neither

record response =
  r_success :: "bool option"
  r_error :: "error_info option"
  r_body :: body

text \<open>
  The SDK object \<open>window.puter\<close>: each method is given by the outcome of calling it, a rejection
  or exception on the left.
\<close>

record Puter =
  auth_signIn :: "exn + bool"
  auth_signOut :: "exn + unit"
  auth_isSignedIn :: bool
  auth_getUser :: "exn + PuterUser"
  ai_chat :: "PuterChatMessage list \<Rightarrow> PuterChatOptions \<Rightarrow> exn + response"
  ai_listModels :: "exn + PuterModel list"


section \<open>The adapter of \<open>src/lib/apis/puter/index.ts\<close>\<close>

text \<open>The first argument of every function is \<open>window.puter\<close>, \<open>None\<close> when the SDK is not loaded.\<close>

definition isPuterAvailable :: "Puter option \<Rightarrow> bool" where
  "isPuterAvailable w = (w \<noteq> None)"

definition sdk_not_loaded :: exn where
  "sdk_not_loaded =
     Error (js ''Puter SDK is not loaded. Make sure the script is included in app.html.'')"

definition getPuter :: "Puter option \<Rightarrow> exn + Puter" where
  "getPuter w =
     (if \<not> isPuterAvailable w then Inl sdk_not_loaded
      else (case w of None \<Rightarrow> Inl sdk_not_loaded | Some puter \<Rightarrow> Inr puter))"

definition signIn :: "Puter option \<Rightarrow> exn + bool" where
  "signIn w =
     (case getPuter w of
        Inl e \<Rightarrow> Inl e
      | Inr puter \<Rightarrow> (case auth_signIn puter of Inl error \<Rightarrow> Inl error | Inr result \<Rightarrow> Inr result))"

definition signOut :: "Puter option \<Rightarrow> exn + unit" where
  "signOut w = (case getPuter w of Inl e \<Rightarrow> Inl e | Inr puter \<Rightarrow> auth_signOut puter)"

text \<open>
  \<open>isSignedIn\<close> calls \<open>getPuter\<close> only after \<open>isPuterAvailable\<close> has answered true, where
  \<open>getPuter\<close> does not throw (lemma \<open>getPuter_available\<close> below): it has no error result.
\<close>

definition isSignedIn :: "Puter option \<Rightarrow> bool" where
  "isSignedIn w =
     (if \<not> isPuterAvailable w then False
      else (case getPuter w of Inl e \<Rightarrow> False | Inr puter \<Rightarrow> auth_isSignedIn puter))"

text \<open>In \<open>getUser\<close> both \<open>getPuter()\<close> and the fetch are inside the \<open>try\<close>, whose \<open>catch\<close> returns \<open>null\<close>.\<close>

definition getUser :: "Puter option \<Rightarrow> PuterUser option" where
  "getUser w =
     (if \<not> isSignedIn w then None
      else (case getPuter w of
              Inl error \<Rightarrow> None
            | Inr puter \<Rightarrow> (case auth_getUser puter of Inl error \<Rightarrow> None | Inr u \<Rightarrow> Some u)))"

definition getAuthState :: "Puter option \<Rightarrow> PuterAuthState" where
  "getAuthState w =
     (let signedIn = isSignedIn w;
          u = (if signedIn then getUser w else None)
      in \<lparr>as_isSignedIn = signedIn, as_user = u\<rparr>)"

subsection \<open>Streaming chat\<close>

text \<open>
  \<open>chat\<close> returns its \<open>AbortController\<close> at once and runs the request in the background; what
  the caller observes is the sequence of callback calls. The caller may call \<open>abort()\<close> on the
  handle while the background task is suspended at an \<open>await\<close>. The suspension points are
  numbered: the task resumes at tick \<open>0\<close> when \<open>puter.ai.chat\<close> settles, at tick \<open>i + 1\<close> when
  chunk \<open>i\<close> of the stream arrives, and at tick \<open>n + 1\<close> when a stream of \<open>n\<close> chunks ends.
  \<open>cancel = Some k\<close> says that \<open>abort()\<close> is called just before tick \<open>k\<close>, so that
  \<open>abortController.signal.aborted\<close> reads true from tick \<open>k\<close> on; \<open>None\<close> that it is never called.
  Each callback call is recorded with the tick at which it is made. The callbacks themselves are
  taken not to throw.
\<close>

datatype callback =
    is_onToken: onToken jsstring
  | is_onComplete: onComplete jsstring "usage option"
  | is_onError: onError exn

type_synonym trace = "(nat \<times> callback) list"

definition aborted :: "nat option \<Rightarrow> nat \<Rightarrow> bool" where
  "aborted cancel t = (case cancel of None \<Rightarrow> False | Some k \<Rightarrow> k \<le> t)"

text \<open>
  The \<open>for await\<close> loop over the chunks still to come, at tick \<open>t\<close> with \<open>fullText\<close> so far. It
  ends when the stream is exhausted, at the \<open>break\<close> (leaving the chunks not yet pulled from the
  iterator), or with the stream's rejection.
\<close>

datatype loop_exit = Exhausted | Break "PuterStreamChunk list" | Throw exn

fun for_await ::
  "nat option \<Rightarrow> nat \<Rightarrow> PuterStreamChunk list \<Rightarrow> exn option \<Rightarrow> jsstring
     \<Rightarrow> loop_exit \<times> nat \<times> jsstring \<times> trace" where
  "for_await cancel t [] None fullText = (Exhausted, t, fullText, [])"
| "for_await cancel t [] (Some e) fullText = (Throw e, t, fullText, [])"
| "for_await cancel t (chunk # rest) fin fullText =
     (if aborted cancel t then (Break rest, t, fullText, [])
      else if truthy (chunk_text chunk) then
        (case for_await cancel (Suc t) rest fin (fullText @ the (chunk_text chunk)) of
           (ex, t', fullText', calls) \<Rightarrow>
             (ex, t', fullText', (t, onToken (the (chunk_text chunk))) # calls))
      else for_await cancel (Suc t) rest fin fullText)"

text \<open>The \<open>catch\<close> of the background task, entered at tick \<open>t\<close> with the thrown value.\<close>

definition as_Error :: "exn \<Rightarrow> exn" where
  "as_Error error = (case error of NonError s \<Rightarrow> Error s | _ \<Rightarrow> error)"

definition catch_chat :: "nat option \<Rightarrow> nat \<Rightarrow> exn \<Rightarrow> trace" where
  "catch_chat cancel t error =
     (if \<not> aborted cancel t then [(t, onError (as_Error error))] else [])"

definition errorMessage :: "response \<Rightarrow> jsstring" where
  "errorMessage r =
     interpolate
       (or_else (or_else (case r_error r of None \<Rightarrow> None | Some e \<Rightarrow> err_message e)
                         (case r_error r of None \<Rightarrow> None | Some e \<Rightarrow> err_code e))
                (Some (js ''Puter API error'')))"

text \<open>
  The background task \<open>chatPromise\<close>, from the settled \<open>puter.ai.chat\<close> on. The \<open>success\<close>
  property of the response is absent (\<open>None\<close>) or a boolean; the error payload is the response
  whose \<open>success\<close> is \<open>false\<close>.
\<close>

definition chatPromise :: "nat option \<Rightarrow> exn + response \<Rightarrow> trace" where
  "chatPromise cancel settled =
     (case settled of
        Inl error \<Rightarrow> catch_chat cancel 0 error
      | Inr r \<Rightarrow>
          if r_success r = Some False
          then catch_chat cancel 0 (Error (errorMessage r))
          else (case r_body r of
                  AsyncIterable chunks fin \<Rightarrow>
                    (case for_await cancel 1 chunks fin [] of
                       (Throw error, t, fullText, calls) \<Rightarrow> calls @ catch_chat cancel t error
                     | (ex, t, fullText, calls) \<Rightarrow> calls @ [(t, onComplete fullText None)])
                | ChatResponse content u \<Rightarrow> [(0, onToken content), (0, onComplete content u)]
                | Neither \<Rightarrow> catch_chat cancel 0 TypeError))"

definition chat ::
  "Puter option \<Rightarrow> nat option \<Rightarrow> PuterChatMessage list \<Rightarrow> PuterChatOptions \<Rightarrow> exn + trace" where
  "chat w cancel messages options =
     (case getPuter w of
        Inl e \<Rightarrow> Inl e
      | Inr puter \<Rightarrow>
          Inr (chatPromise cancel (ai_chat puter messages (options\<lparr>opt_stream := Some True\<rparr>))))"

subsection \<open>Non-streaming chat, model lists, titles\<close>

text \<open>
  \<open>chatSync\<close> reads \<open>response.message.content\<close> whatever the response is: a response with no
  \<open>message\<close> makes that read throw a \<open>TypeError\<close>.
\<close>

record chat_result =
  res_text :: jsstring
  res_usage :: "usage option"

definition chatSync ::
  "Puter option \<Rightarrow> PuterChatMessage list \<Rightarrow> PuterChatOptions \<Rightarrow> exn + chat_result" where
  "chatSync w messages options =
     (case getPuter w of
        Inl e \<Rightarrow> Inl e
      | Inr puter \<Rightarrow>
          (case ai_chat puter messages (options\<lparr>opt_stream := Some False\<rparr>) of
             Inl e \<Rightarrow> Inl e
           | Inr r \<Rightarrow>
               (case r_body r of
                  ChatResponse content u \<Rightarrow> Inr \<lparr>res_text = content, res_usage = u\<rparr>
                | _ \<Rightarrow> Inl TypeError)))"

definition listModels :: "Puter option \<Rightarrow> exn + PuterModel list" where
  "listModels w =
     (case getPuter w of
        Inl e \<Rightarrow> Inl e
      | Inr puter \<Rightarrow> (case ai_listModels puter of Inl error \<Rightarrow> Inr [] | Inr ms \<Rightarrow> Inr ms))"

definition entry :: "string \<Rightarrow> string \<Rightarrow> string \<Rightarrow> PuterModel" where
  "entry i n p =
     \<lparr>pm_id = js i, pm_name = Some (js n), pm_provider = Some (js p), pm_endpoint = None\<rparr>"

definition CURATED_PUTER_MODELS :: "PuterModel list" where
  "CURATED_PUTER_MODELS =
     [entry ''gpt-4o'' ''GPT-4o'' ''openai'',
      entry ''gpt-4o-mini'' ''GPT-4o Mini'' ''openai'',
      entry ''gpt-4.1'' ''GPT-4.1'' ''openai'',
      entry ''gpt-4.1-mini'' ''GPT-4.1 Mini'' ''openai'',
      entry ''gpt-4.1-nano'' ''GPT-4.1 Nano'' ''openai'',
      entry ''o1'' ''o1'' ''openai'',
      entry ''o1-mini'' ''o1 Mini'' ''openai'',
      entry ''o3-mini'' ''o3 Mini'' ''openai'',
      entry ''claude-sonnet-4-20250514'' ''Claude Sonnet 4'' ''anthropic'',
      entry ''claude-3-7-sonnet-20250219'' ''Claude 3.7 Sonnet'' ''anthropic'',
      entry ''claude-3-5-sonnet-20241022'' ''Claude 3.5 Sonnet'' ''anthropic'',
      entry ''claude-haiku-4-5-20251001'' ''Claude Haiku 4.5'' ''anthropic'',
      entry ''gemini-2.0-flash'' ''Gemini 2.0 Flash'' ''google'',
      entry ''gemini-2.5-flash'' ''Gemini 2.5 Flash'' ''google'',
      entry ''gemini-2.5-pro'' ''Gemini 2.5 Pro'' ''google'',
      entry ''deepseek-chat'' ''DeepSeek Chat'' ''deepseek'',
      entry ''deepseek-reasoner'' ''DeepSeek Reasoner'' ''deepseek'',
      entry ''mistral-large-latest'' ''Mistral Large'' ''mistral'',
      entry ''mistral-small-2506'' ''Mistral Small'' ''mistral'',
      entry ''grok-3'' ''Grok 3'' ''xai'',
      entry ''grok-3-mini'' ''Grok 3 Mini'' ''xai'']"

definition getCuratedModels :: "PuterModel list" where
  "getCuratedModels = CURATED_PUTER_MODELS"

text \<open>
  \<open>getModelsWithCustom\<close>: the \<open>Set\<close> of curated ids is the set of a list; the filter tests
  \<open>m.id\<close>, \<open>m.id.trim()\<close> and the membership of the trimmed id in turn.
\<close>

definition colon :: jschar where
  "colon = of_char CHR '':''"

definition getModelsWithCustom :: "PuterCustomModel list \<Rightarrow> PuterModel list" where
  "getModelsWithCustom customModels =
     (let curated = getCuratedModels;
          curatedIds = set (map pm_id curated);
          custom =
            map (\<lambda>m. \<lparr>pm_id = trim (cm_id m),
                      pm_name = Some (trim (cm_id m)),
                      pm_provider =
                        (if includes_str (cm_id m) colon then first (split (cm_id m) colon)
                         else Some (js ''custom'')),
                      pm_endpoint = or_else (map_option trim (cm_endpoint m)) None\<rparr>)
              (filter (\<lambda>m. truthy (Some (cm_id m)) \<and> truthy (Some (trim (cm_id m)))
                            \<and> trim (cm_id m) \<notin> curatedIds)
                 customModels)
      in curated @ custom)"

text \<open>
  \<open>generateTitle\<close>: the whole body is inside the \<open>try\<close>, so every error of \<open>chatSync\<close> ends in
  the \<open>catch\<close>.
\<close>

definition title_messages :: "jsstring \<Rightarrow> jsstring \<Rightarrow> PuterChatMessage list" where
  "title_messages userMessage assistantMessage =
     [\<lparr>msg_role = system,
       msg_content = js (''Generate a very brief title (3-6 words) for this conversation. ''
                         @ ''Reply with ONLY the title, no quotes or punctuation.'')\<rparr>,
      \<lparr>msg_role = user,
       msg_content = js ''User: '' @ slice0 userMessage 200 @ [0x0A, 0x0A]
                     @ js ''Assistant: '' @ slice0 assistantMessage 200\<rparr>]"

definition title_options :: PuterChatOptions where
  "title_options =
     \<lparr>opt_model = Some (js ''gpt-4o-mini''), opt_temperature = Some (7 / 10),
      opt_max_tokens = None, opt_stream = None\<rparr>"

definition generateTitle :: "Puter option \<Rightarrow> jsstring \<Rightarrow> jsstring \<Rightarrow> jsstring" where
  "generateTitle w userMessage assistantMessage =
     (case chatSync w (title_messages userMessage assistantMessage) title_options of
        Inl error \<Rightarrow> js ''New Chat''
      | Inr result \<Rightarrow> slice0 (trim (res_text result)) 100)"


section \<open>The controller of \<open>PuterConnection.svelte\<close>\<close>

text \<open>
  An entry of \<open>settings.puterCustomModels\<close> as it is read back: a plain string of the old
  format, or an object.
\<close>

datatype stored_model = Legacy jsstring | Object PuterCustomModel

record settings =
  s_puterEnabled :: "bool option"
  s_puterCustomModels :: "stored_model list option"

record global_model =
  gm_id :: jsstring
  gm_name :: jsstring
  gm_owned_by :: jsstring
  gm_external :: bool
  gm_puter :: bool

text \<open>A notification carries the key given to \<open>$i18n.t\<close>.\<close>

datatype toast = toast_error jsstring | toast_success jsstring

text \<open>
  The state the handlers read and write: the stores (\<open>puterEnabled\<close>, \<open>puterSignedIn\<close>,
  \<open>puterUser\<close>, \<open>models\<close>, \<open>settings\<close>), the component's variables, and three logs of what
  leaves the component: the notifications shown, the payloads \<open>ui\<close> written by
  \<open>updateUserSettings\<close>, and the \<open>enabled\<close> flags of the \<open>change\<close> events dispatched.
  The environment is \<open>window.puter\<close> and the list that \<open>_getModels\<close> of \<open>$lib/apis\<close> resolves to
  (the models of the other providers); \<open>_getModels\<close> and \<open>updateUserSettings\<close> are taken to succeed.
\<close>

record state =
  puterEnabled :: bool
  puterSignedIn :: bool
  puterUser :: "(jsstring \<times> jsstring option) option"
  models :: "global_model list"
  settings :: settings
  loading :: bool
  availableModels :: "jsstring list"
  newCustomModelId :: jsstring
  newCustomModelEndpoint :: jsstring
  customModels :: "PuterCustomModel list"
  toasts :: "toast list"
  saved :: "settings list"
  dispatched :: "bool list"

record env =
  window_puter :: "Puter option"
  getModels_result :: "global_model list"

definition formatPuterModel :: "PuterModel \<Rightarrow> global_model" where
  "formatPuterModel m =
     \<lparr>gm_id = js ''puter/''
               @ interpolate (or_else (or_else (Some (pm_id m)) (pm_name m)) (Some (js ''unknown''))),
      gm_name = js ''Puter: ''
               @ interpolate (or_else (or_else (pm_name m) (Some (pm_id m)))
                                (Some (js ''Unknown Model''))),
      gm_owned_by = js ''puter'',
      gm_external = True,
      gm_puter = True\<rparr>"

definition refreshGlobalModels :: "env \<Rightarrow> state \<Rightarrow> state" where
  "refreshGlobalModels e st =
     (let allModels = getModels_result e;
          allModels' =
            (if puterEnabled st \<and> isPuterAvailable (window_puter e) then
               (let puterModels = getModelsWithCustom (customModels st)
                in if length puterModels > 0
                   then allModels @ map formatPuterModel puterModels
                   else allModels)
             else allModels)
      in st\<lparr>models := allModels'\<rparr>)"

definition refreshModels :: "env \<Rightarrow> state \<Rightarrow> state" where
  "refreshModels e st =
     (if \<not> isPuterAvailable (window_puter e) then st
      else (let st1 = st\<lparr>loading := True\<rparr>;
                puterModels = getModelsWithCustom (customModels st1);
                st2 = st1\<lparr>availableModels :=
                        map (\<lambda>m. interpolate (or_else (or_else (Some (pm_id m)) (pm_name m))
                                                  (Some (js ''unknown''))))
                          puterModels\<rparr>
            in st2\<lparr>loading := False\<rparr>))"

definition saveCustomModels :: "state \<Rightarrow> state" where
  "saveCustomModels st =
     (let st1 = st\<lparr>settings :=
                   (settings st)\<lparr>s_puterCustomModels := Some (map Object (customModels st))\<rparr>\<rparr>
      in st1\<lparr>saved := saved st1 @ [settings st1]\<rparr>)"

definition set_user :: "PuterUser option \<Rightarrow> state \<Rightarrow> state" where
  "set_user u st =
     (case u of None \<Rightarrow> st | Some x \<Rightarrow> st\<lparr>puterUser := Some (username x, email x)\<rparr>)"

text \<open>
  \<open>handleToggle\<close> runs after the switch has written its new position to \<open>puterEnabled\<close>.
\<close>

definition save_enabled :: "state \<Rightarrow> state" where
  "save_enabled st =
     (let st1 = st\<lparr>settings := (settings st)\<lparr>s_puterEnabled := Some (puterEnabled st)\<rparr>\<rparr>;
          st2 = st1\<lparr>saved := saved st1 @ [settings st1]\<rparr>
      in st2\<lparr>dispatched := dispatched st2 @ [puterEnabled st2]\<rparr>)"

definition handleToggle :: "env \<Rightarrow> state \<Rightarrow> state" where
  "handleToggle e st =
     (if puterEnabled st then
        (if isPuterAvailable (window_puter e) then
           (if isSignedIn (window_puter e) then
              save_enabled
                (refreshGlobalModels e
                  (refreshModels e
                    (set_user (getUser (window_puter e)) (st\<lparr>puterSignedIn := True\<rparr>))))
            else save_enabled st)
         else st\<lparr>toasts := toasts st @ [toast_error (js ''Puter SDK not available'')],
                 puterEnabled := False\<rparr>)
      else save_enabled (refreshGlobalModels e (st\<lparr>availableModels := []\<rparr>)))"

definition addCustomModel :: "env \<Rightarrow> state \<Rightarrow> state" where
  "addCustomModel e st =
     (let modelId = trim (newCustomModelId st)
      in if \<not> truthy (Some modelId) then
           st\<lparr>toasts := toasts st @ [toast_error (js ''Please enter a model ID'')]\<rparr>
         else if list_ex (\<lambda>m. cm_id m = modelId) (customModels st) then
           st\<lparr>toasts := toasts st @ [toast_error (js ''Model already added'')]\<rparr>
         else
           (let newModel = \<lparr>cm_id = modelId,
                            cm_endpoint = or_else (Some (trim (newCustomModelEndpoint st))) None\<rparr>;
                st1 = st\<lparr>customModels := customModels st @ [newModel],
                         newCustomModelId := [], newCustomModelEndpoint := []\<rparr>;
                st2 = refreshGlobalModels e (refreshModels e (saveCustomModels st1))
            in st2\<lparr>toasts := toasts st2 @ [toast_success (js ''Custom model added'')]\<rparr>))"

definition migrate :: "stored_model \<Rightarrow> PuterCustomModel" where
  "migrate m = (case m of Legacy s \<Rightarrow> \<lparr>cm_id = s, cm_endpoint = None\<rparr> | Object c \<Rightarrow> c)"

definition onMount :: "env \<Rightarrow> state \<Rightarrow> state" where
  "onMount e st =
     (let st1 = (case s_puterEnabled (settings st) of
                   None \<Rightarrow> st
                 | Some b \<Rightarrow> st\<lparr>puterEnabled := b\<rparr>);
          st2 = (case s_puterCustomModels (settings st1) of
                   None \<Rightarrow> st1
                 | Some ms \<Rightarrow> st1\<lparr>customModels := map migrate ms\<rparr>)
      in if isPuterAvailable (window_puter e) \<and> isSignedIn (window_puter e) then
           (let st3 = set_user (getUser (window_puter e)) (st2\<lparr>puterSignedIn := True\<rparr>)
            in if puterEnabled st3 then refreshModels e st3 else st3)
         else st2)"



section \<open>Notions of the specification and sample values\<close>

text \<open>
  The token chunks of a stream are the chunks that carry a text that is not empty; their texts,
  in order, are the tokens delivered.
\<close>

definition token_chunks :: "PuterStreamChunk list \<Rightarrow> jsstring list" where
  "token_chunks chunks =
     map (\<lambda>c. the (chunk_text c)) (filter (\<lambda>c. truthy (chunk_text c)) chunks)"

text \<open>The curated entry as it appears in the global list, in the words of the specification.\<close>

definition prefixed :: "PuterModel \<Rightarrow> global_model" where
  "prefixed c =
     \<lparr>gm_id = js ''puter/'' @ pm_id c,
      gm_name = js ''Puter: '' @ the (pm_name c),
      gm_owned_by = js ''puter'',
      gm_external = True,
      gm_puter = True\<rparr>"

text \<open>The custom entry as it appears in the merged list, in the words of the specification.\<close>

definition formatted :: "PuterCustomModel \<Rightarrow> PuterModel" where
  "formatted m =
     \<lparr>pm_id = trim (cm_id m),
      pm_name = Some (trim (cm_id m)),
      pm_provider = Some (if colon \<in> set (cm_id m)
                          then takeWhile (\<lambda>x. x \<noteq> colon) (cm_id m)
                          else js ''custom''),
      pm_endpoint = (case cm_endpoint m of
                       None \<Rightarrow> None
                     | Some ep \<Rightarrow> if trim ep = [] then None else Some (trim ep))\<rparr>"

text \<open>A stream of four chunks, one of them without text, and an SDK that answers with it.\<close>

definition sample_chunks :: "PuterStreamChunk list" where
  "sample_chunks =
     [\<lparr>chunk_text = Some (js ''Hel'')\<rparr>, \<lparr>chunk_text = None\<rparr>,
      \<lparr>chunk_text = Some (js ''lo'')\<rparr>, \<lparr>chunk_text = Some (js ''!'')\<rparr>]"

definition sample_stream :: response where
  "sample_stream =
     \<lparr>r_success = None, r_error = None, r_body = AsyncIterable sample_chunks None\<rparr>"

definition sample_complete :: response where
  "sample_complete =
     \<lparr>r_success = None, r_error = None, r_body = ChatResponse (js ''  Trip plan '') None\<rparr>"

definition sample_puter :: Puter where
  "sample_puter =
     \<lparr>auth_signIn = Inr True,
      auth_signOut = Inr (),
      auth_isSignedIn = True,
      auth_getUser = Inl (Error (js ''offline'')),
      ai_chat = (\<lambda>messages options.
                   if opt_stream options = Some True then Inr sample_stream
                   else Inr sample_complete),
      ai_listModels = Inr []\<rparr>"

definition sample_base :: "global_model list" where
  "sample_base =
     [\<lparr>gm_id = js ''llama3:8b'', gm_name = js ''Llama 3'', gm_owned_by = js ''ollama'',
       gm_external = False, gm_puter = False\<rparr>]"

definition sample_env :: env where
  "sample_env = \<lparr>window_puter = Some sample_puter, getModels_result = sample_base\<rparr>"

definition absent_env :: env where
  "absent_env = \<lparr>window_puter = None, getModels_result = sample_base\<rparr>"

definition sample_state :: state where
  "sample_state =
     \<lparr>puterEnabled = True,
      puterSignedIn = True,
      puterUser = None,
      models = [],
      settings = \<lparr>s_puterEnabled = None, s_puterCustomModels = None\<rparr>,
      loading = False,
      availableModels = [],
      newCustomModelId = js '' gpt-4o '',
      newCustomModelEndpoint = [],
      customModels = [],
      toasts = [],
      saved = [],
      dispatched = []\<rparr>"

definition llama :: PuterCustomModel where
  "llama = \<lparr>cm_id = js ''openrouter:meta-llama/llama-3.1-8b-instruct'', cm_endpoint = None\<rparr>"


text \<open>
  An error payload, an SDK whose \<open>ai.chat\<close> resolves to a given response, and a state in which
  the user has typed the id of a custom model that is already registered.
\<close>

definition sample_error :: response where
  "sample_error =
     \<lparr>r_success = Some False,
      r_error = Some \<lparr>err_message = None, err_code = Some (js ''rate_limited'')\<rparr>,
      r_body = Neither\<rparr>"

definition answering :: "response \<Rightarrow> Puter" where
  "answering r = sample_puter\<lparr>ai_chat := (\<lambda>messages options. Inr r)\<rparr>"

definition llama_state :: state where
  "llama_state =
     sample_state\<lparr>customModels := [llama],
                   newCustomModelId := js ''openrouter:meta-llama/llama-3.1-8b-instruct  ''\<rparr>"


section \<open>Properties\<close>

subsection \<open>The adapter\<close>

lemma getPuter_available: "isPuterAvailable w \<Longrightarrow> \<exists>puter. getPuter w = Inr puter"
  by (cases w) (simp_all add: getPuter_def isPuterAvailable_def)

lemma getPuter_absent: "getPuter None = Inl sdk_not_loaded"
  by (simp add: getPuter_def isPuterAvailable_def)

lemma getPuter_present: "getPuter (Some p) = Inr p"
  by (simp add: getPuter_def isPuterAvailable_def)

text \<open>
  Claim C7, as amended. With the SDK global absent, \<open>signIn\<close>, \<open>signOut\<close>, \<open>chat\<close>, \<open>chatSync\<close>
  and \<open>listModels\<close> fail at once with the error of \<open>getPuter\<close>, \<open>isSignedIn\<close> returns false and
  \<open>getUser\<close> returns \<open>null\<close>. With the SDK present, \<open>getUser\<close> returns \<open>null\<close> when the SDK
  reports that nobody is signed in and when the fetch of the user fails.
\<close>

theorem adapter_sdk_absent:
  "signIn None = Inl sdk_not_loaded
   \<and> signOut None = Inl sdk_not_loaded
   \<and> chat None cancel messages options = Inl sdk_not_loaded
   \<and> chatSync None messages options = Inl sdk_not_loaded
   \<and> listModels None = Inl sdk_not_loaded
   \<and> isSignedIn None = False
   \<and> getUser None = None
   \<and> getUser (Some (p\<lparr>auth_isSignedIn := False\<rparr>)) = None
   \<and> getUser (Some (p\<lparr>auth_getUser := Inl err\<rparr>)) = None"
  by (simp add: signIn_def signOut_def chat_def chatSync_def listModels_def isSignedIn_def
      getUser_def getPuter_absent getPuter_present isPuterAvailable_def)

text \<open>The sample SDK reports a signed-in user and fails to fetch it.\<close>

theorem adapter_sdk_absent_witness:
  "auth_isSignedIn sample_puter
   \<and> auth_getUser sample_puter = Inl (Error (js ''offline''))
   \<and> getUser (Some sample_puter) = None
   \<and> chat None (Some 0) [] title_options = Inl sdk_not_loaded"
proof -
  have "sample_puter\<lparr>auth_getUser := Inl (Error (js ''offline''))\<rparr> = sample_puter"
    by (simp add: sample_puter_def)
  then show ?thesis
    using adapter_sdk_absent [of "Some 0" "[]" title_options sample_puter "Error (js ''offline'')"]
    by (simp add: sample_puter_def)
qed

text \<open>
  The claim as written fails for the calls that are not named in it: with the SDK global
  absent \<open>getUser\<close>, \<open>getAuthState\<close> and \<open>generateTitle\<close> return a value.
\<close>

theorem adapter_sdk_absent_counterexample:
  "\<not> isPuterAvailable None
   \<and> getUser None = None
   \<and> getAuthState None = \<lparr>as_isSignedIn = False, as_user = None\<rparr>
   \<and> generateTitle None [] [] = js ''New Chat''"
  by (simp add: isPuterAvailable_def getUser_def getAuthState_def isSignedIn_def generateTitle_def
      chatSync_def getPuter_absent)

lemma trim_trip: "trim (js ''  Trip plan '') = js ''Trip plan''"
  by (simp add: trim_def isWhiteSpace_def js_def)

text \<open>
  Claim C10. \<open>generateTitle\<close> has no error result. When \<open>chatSync\<close> raises it returns
  \<open>New Chat\<close>; otherwise it returns the first 100 code units of the trimmed response text; in
  both cases the title has at most 100 code units.
\<close>

theorem generateTitle_total:
  "(chatSync w (title_messages u a) title_options = Inl err \<longrightarrow>
      generateTitle w u a = js ''New Chat'')
   \<and> (chatSync w (title_messages u a) title_options = Inr r \<longrightarrow>
        generateTitle w u a = take 100 (trim (res_text r)))
   \<and> length (generateTitle w u a) \<le> 100"
  by (auto simp: generateTitle_def slice0_def js_def split: sum.splits)

theorem generateTitle_total_witness:
  "chatSync (Some sample_puter) (title_messages (js ''hi'') (js ''hello'')) title_options
     = Inr \<lparr>res_text = js ''  Trip plan '', res_usage = None\<rparr>
   \<and> generateTitle (Some sample_puter) (js ''hi'') (js ''hello'') = js ''Trip plan''
   \<and> chatSync None (title_messages (js ''hi'') (js ''hello'')) title_options = Inl sdk_not_loaded
   \<and> generateTitle None (js ''hi'') (js ''hello'') = js ''New Chat''"
proof -
  have a: "chatSync (Some sample_puter) (title_messages (js ''hi'') (js ''hello'')) title_options
     = Inr \<lparr>res_text = js ''  Trip plan '', res_usage = None\<rparr>"
    by (simp add: chatSync_def getPuter_present sample_puter_def sample_complete_def)
  have b: "chatSync None (title_messages (js ''hi'') (js ''hello'')) title_options
     = Inl sdk_not_loaded"
    by (simp add: chatSync_def getPuter_absent)
  have l: "take 100 (js ''Trip plan'') = js ''Trip plan''"
    by (simp add: js_def)
  show ?thesis
    using generateTitle_total [of "Some sample_puter" "js ''hi''" "js ''hello''" sdk_not_loaded
        "\<lparr>res_text = js ''  Trip plan '', res_usage = None\<rparr>"]
      generateTitle_total [of None "js ''hi''" "js ''hello''" sdk_not_loaded]
      a b
    by (simp add: trim_trip l)
qed

subsection \<open>Streaming chat\<close>

lemma for_await_uncancelled:
  "\<exists>calls. for_await None t chunks None fullText =
       (Exhausted, t + length chunks, fullText @ concat (token_chunks chunks), calls)
     \<and> map snd calls = map onToken (token_chunks chunks)"
proof (induction chunks arbitrary: t fullText)
  case Nil
  then show ?case by (simp add: token_chunks_def)
next
  case (Cons c cs)
  obtain calls where
    "for_await None (Suc t) cs None (fullText @ the (chunk_text c)) =
       (Exhausted, Suc t + length cs,
        (fullText @ the (chunk_text c)) @ concat (token_chunks cs), calls)"
    "map snd calls = map onToken (token_chunks cs)"
    using Cons.IH by blast
  moreover obtain calls' where
    "for_await None (Suc t) cs None fullText =
       (Exhausted, Suc t + length cs, fullText @ concat (token_chunks cs), calls')"
    "map snd calls' = map onToken (token_chunks cs)"
    using Cons.IH by blast
  ultimately show ?case
    by (simp add: aborted_def token_chunks_def)
qed

lemma chat_sample_uncancelled:
  "chat (Some sample_puter) None [] title_options
     = Inr [(1, onToken (js ''Hel'')), (3, onToken (js ''lo'')), (4, onToken (js ''!'')),
            (5, onComplete (js ''Hello!'') None)]"
  by (simp add: chat_def getPuter_present sample_puter_def chatPromise_def sample_stream_def
      sample_chunks_def aborted_def js_def)

lemma chat_sample_error:
  "chat (Some (answering sample_error)) None [] title_options
     = Inr [(0, onError (Error (js ''rate_limited'')))]"
  by (simp add: chat_def getPuter_present answering_def sample_error_def chatPromise_def
      catch_chat_def aborted_def as_Error_def errorMessage_def or_else_def js_def)

lemma chat_sample_complete:
  "chat (Some (answering sample_complete)) None [] title_options
     = Inr [(0, onToken (js ''  Trip plan '')), (0, onComplete (js ''  Trip plan '') None)]"
  by (simp add: chat_def getPuter_present answering_def sample_complete_def chatPromise_def)

lemma token_chunks_sample: "token_chunks sample_chunks = [js ''Hel'', js ''lo'', js ''!'']"
  by (simp add: token_chunks_def sample_chunks_def js_def)

lemma errorMessage_sample: "errorMessage sample_error = js ''rate_limited''"
  by (simp add: errorMessage_def sample_error_def or_else_def js_def)

text \<open>
  Claim C4. For a \<open>chat\<close> whose handle is never aborted and whose request resolves to \<open>r\<close>:
  when \<open>r\<close> has \<open>success\<close> false, the only callback call is one \<open>onError\<close>; otherwise, when \<open>r\<close>
  is an async iterable that ends normally, the calls are one \<open>onToken\<close> for each token chunk,
  in order, and then one \<open>onComplete\<close>, made when the stream has ended, with the concatenation
  of the tokens; otherwise, when \<open>r\<close> is a complete response, the calls are one \<open>onToken\<close> with
  the full text and then one \<open>onComplete\<close> with the same text.
\<close>

theorem chat_outcomes:
  assumes "chat (Some p) None messages options = Inr tr"
    and "ai_chat p messages (options\<lparr>opt_stream := Some True\<rparr>) = Inr r"
  shows "(r_success r = Some False \<longrightarrow> map snd tr = [onError (Error (errorMessage r))])
   \<and> (r_success r \<noteq> Some False \<and> r_body r = AsyncIterable chunks None \<longrightarrow>
        map snd tr = map onToken (token_chunks chunks)
                     @ [onComplete (concat (token_chunks chunks)) None]
        \<and> fst (last tr) = Suc (length chunks))
   \<and> (r_success r \<noteq> Some False \<and> r_body r = ChatResponse content u \<longrightarrow>
        map snd tr = [onToken content, onComplete content u])"
proof -
  obtain calls where
    "for_await None 1 chunks None [] =
       (Exhausted, 1 + length chunks, [] @ concat (token_chunks chunks), calls)"
    "map snd calls = map onToken (token_chunks chunks)"
    using for_await_uncancelled by blast
  then show ?thesis
    using assms
    by (auto simp: chat_def getPuter_present chatPromise_def catch_chat_def
        aborted_def as_Error_def)
qed

theorem chat_outcomes_witness:
  "chat (Some sample_puter) None [] title_options
     = Inr [(1, onToken (js ''Hel'')), (3, onToken (js ''lo'')), (4, onToken (js ''!'')),
            (5, onComplete (js ''Hello!'') None)]
   \<and> map onToken (token_chunks sample_chunks)
       @ [onComplete (concat (token_chunks sample_chunks)) None]
     = [onToken (js ''Hel''), onToken (js ''lo''), onToken (js ''!''),
        onComplete (js ''Hello!'') None]
   \<and> chat (Some (answering sample_error)) None [] title_options
     = Inr [(0, onError (Error (errorMessage sample_error)))]
   \<and> chat (Some (answering sample_complete)) None [] title_options
     = Inr [(0, onToken (js ''  Trip plan '')), (0, onComplete (js ''  Trip plan '') None)]"
proof -
  have a: "ai_chat sample_puter [] (title_options\<lparr>opt_stream := Some True\<rparr>) = Inr sample_stream"
    by (simp add: sample_puter_def)
  have b: "ai_chat (answering sample_error) [] (title_options\<lparr>opt_stream := Some True\<rparr>)
             = Inr sample_error"
    by (simp add: answering_def)
  have c: "ai_chat (answering sample_complete) [] (title_options\<lparr>opt_stream := Some True\<rparr>)
             = Inr sample_complete"
    by (simp add: answering_def)
  have s: "r_success sample_stream \<noteq> Some False"
    "r_body sample_stream = AsyncIterable sample_chunks None"
    by (simp_all add: sample_stream_def)
  have e: "r_success sample_error = Some False"
    by (simp add: sample_error_def)
  have d: "r_success sample_complete \<noteq> Some False"
    "r_body sample_complete = ChatResponse (js ''  Trip plan '') None"
    by (simp_all add: sample_complete_def)
  show ?thesis
    using chat_outcomes [OF chat_sample_uncancelled a, of sample_chunks] s
      chat_outcomes [OF chat_sample_error b] e
      chat_outcomes [OF chat_sample_complete c, of _ "js ''  Trip plan ''" None] d
      chat_sample_uncancelled chat_sample_error chat_sample_complete
    by (simp add: token_chunks_sample errorMessage_sample js_def)
qed

lemma for_await_cancelled:
  "for_await (Some k) t chunks fin fullText = (ex, t', fullText', calls) \<Longrightarrow>
     (\<forall>(u, c) \<in> set calls. u < k \<and> is_onToken c) \<and> (\<not> aborted (Some k) t' \<longrightarrow> t' < k)"
proof (induction chunks arbitrary: t fullText ex t' fullText' calls)
  case Nil
  then show ?case by (cases fin) (auto simp: aborted_def)
next
  case (Cons c cs)
  show ?case
  proof (cases "aborted (Some k) t")
    case True
    with Cons.prems show ?thesis by (auto simp: aborted_def)
  next
    case False
    then have tk: "t < k" by (simp add: aborted_def)
    show ?thesis
    proof (cases "truthy (chunk_text c)")
      case True
      obtain ex1 t1 f1 calls1 where r:
        "for_await (Some k) (Suc t) cs fin (fullText @ the (chunk_text c)) = (ex1, t1, f1, calls1)"
        by (metis prod_cases4)
      with Cons.prems False True have
        "calls = (t, onToken (the (chunk_text c))) # calls1" "t' = t1"
        by simp_all
      with Cons.IH [OF r] tk show ?thesis by auto
    next
      case skipped: False
      with Cons.prems False have
        "for_await (Some k) (Suc t) cs fin fullText = (ex, t', fullText', calls)"
        by simp
      from Cons.IH [OF this] show ?thesis .
    qed
  qed
qed

lemma for_await_break:
  "t \<le> k \<Longrightarrow> k < t + length chunks \<Longrightarrow>
     fst (for_await (Some k) t chunks fin fullText) = Break (drop (Suc (k - t)) chunks)"
proof (induction chunks arbitrary: t fullText)
  case Nil
  then show ?case by simp
next
  case (Cons c cs)
  show ?case
  proof (cases "k = t")
    case True
    then show ?thesis by (simp add: aborted_def)
  next
    case False
    with Cons.prems have a: "Suc t \<le> k" "k < Suc t + length cs" by simp_all
    have d: "Suc (k - t) = Suc (Suc (k - Suc t))" using a by simp
    from False Cons.prems have "\<not> aborted (Some k) t" by (simp add: aborted_def)
    then show ?thesis
      using Cons.IH [OF a] d by (simp add: case_prod_beta)
  qed
qed

text \<open>
  What the abort flag does guard. The \<open>catch\<close> tests it, so whatever the request settles to
  (a rejection, an error payload, a stream, a complete response or anything else), no \<open>onError\<close>
  call is made at or after the tick of the abort. The loop tests it before each chunk, so for an
  async iterable no \<open>onToken\<close> call is made at or after that tick.
\<close>

lemma chat_aborted_no_onError:
  assumes "chat (Some p) (Some k) messages options = Inr tr"
  shows "\<forall>(t, c) \<in> set tr. k \<le> t \<longrightarrow> \<not> is_onError c"
proof -
  define settled where "settled = ai_chat p messages (options\<lparr>opt_stream := Some True\<rparr>)"
  have tr: "tr = chatPromise (Some k) settled"
    using assms by (simp add: chat_def getPuter_present settled_def)
  show ?thesis
  proof (cases settled)
    case (Inl error)
    then show ?thesis unfolding tr
      by (auto simp: chatPromise_def catch_chat_def aborted_def)
  next
    case (Inr r)
    show ?thesis
    proof (cases "r_success r = Some False")
      case True
      with Inr show ?thesis unfolding tr
        by (auto simp: chatPromise_def catch_chat_def aborted_def)
    next
      case False
      show ?thesis
      proof (cases "r_body r")
        case (AsyncIterable chunks fin)
        obtain ex t' ft calls where fa:
          "for_await (Some k) 1 chunks fin [] = (ex, t', ft, calls)"
          by (metis prod_cases4)
        from for_await_cancelled [OF fa] Inr False AsyncIterable fa show ?thesis unfolding tr
          by (cases ex) (auto simp: chatPromise_def catch_chat_def aborted_def)
      next
        case (ChatResponse content u)
        with Inr False show ?thesis unfolding tr
          by (simp add: chatPromise_def)
      next
        case Neither
        with Inr False show ?thesis unfolding tr
          by (auto simp: chatPromise_def catch_chat_def aborted_def)
      qed
    qed
  qed
qed

lemma chat_aborted_stream_no_onToken:
  assumes "chat (Some p) (Some k) messages options = Inr tr"
    and "ai_chat p messages (options\<lparr>opt_stream := Some True\<rparr>) = Inr r"
    and "r_body r = AsyncIterable chunks fin"
  shows "\<forall>(t, c) \<in> set tr. k \<le> t \<longrightarrow> \<not> is_onToken c"
proof -
  obtain ex t' ft calls where fa: "for_await (Some k) 1 chunks fin [] = (ex, t', ft, calls)"
    by (metis prod_cases4)
  note c = for_await_cancelled [OF fa]
  have tr: "tr = chatPromise (Some k) (Inr r)"
    using assms(1,2) by (simp add: chat_def getPuter_present)
  show ?thesis
  proof (cases "r_success r = Some False")
    case True
    then show ?thesis unfolding tr
      by (auto simp: chatPromise_def catch_chat_def aborted_def)
  next
    case False
    then show ?thesis unfolding tr using assms(3) fa c
      by (cases ex) (auto simp: chatPromise_def catch_chat_def aborted_def)
  qed
qed

text \<open>
  Claim C3. After an abort of the handle no \<open>onToken\<close>, \<open>onError\<close> or \<open>onComplete\<close> call is to
  be made. The code does not keep to this on two paths that lack the test of the abort flag
  which the \<open>catch\<close> has. With the sample stream aborted just before tick 2, the loop is left by
  its \<open>break\<close> and \<open>onComplete\<close> is then called, at tick 2, with the text delivered so far. With a
  complete response and the handle aborted before the request settles, \<open>onToken\<close> and
  \<open>onComplete\<close> are both called. The error payload shows the guarded path beside them: aborted
  before the request settles it makes no call, and not aborted it makes its one \<open>onError\<close> call.
\<close>

theorem chat_aborted_callbacks_fire:
  "chat (Some sample_puter) (Some 2) [] title_options
     = Inr [(1, onToken (js ''Hel'')), (2, onComplete (js ''Hel'') None)]
   \<and> chat (Some (answering sample_complete)) (Some 0) [] title_options
     = Inr [(0, onToken (js ''  Trip plan '')), (0, onComplete (js ''  Trip plan '') None)]
   \<and> chat (Some (answering sample_error)) (Some 0) [] title_options = Inr []
   \<and> chat (Some (answering sample_error)) None [] title_options
     = Inr [(0, onError (Error (js ''rate_limited'')))]"
proof -
  have a: "chat (Some sample_puter) (Some 2) [] title_options
     = Inr [(1, onToken (js ''Hel'')), (2, onComplete (js ''Hel'') None)]"
    by (simp add: chat_def getPuter_present sample_puter_def chatPromise_def sample_stream_def
        sample_chunks_def aborted_def js_def)
  have b: "chat (Some (answering sample_complete)) (Some 0) [] title_options
     = Inr [(0, onToken (js ''  Trip plan '')), (0, onComplete (js ''  Trip plan '') None)]"
    by (simp add: chat_def getPuter_present answering_def sample_complete_def chatPromise_def)
  have c: "chat (Some (answering sample_error)) (Some 0) [] title_options = Inr []"
    by (simp add: chat_def getPuter_present answering_def sample_error_def chatPromise_def
        catch_chat_def aborted_def)
  show ?thesis
    using a b c chat_sample_error by simp
qed

subsection \<open>The global model list\<close>

text \<open>
  Claim C2. Whatever the models of the other providers, the SDK, the sign-in state and the
  custom models are, \<open>refreshGlobalModels\<close> with \<open>puterEnabled\<close> false sets the global list to
  the list of the other providers alone and changes nothing else: no entry built from a Puter
  model is in it, and its entries with the \<open>puter\<close> flag are those of that list.
\<close>

theorem refreshGlobalModels_disabled:
  assumes "\<not> puterEnabled st"
  shows "refreshGlobalModels e st = st\<lparr>models := getModels_result e\<rparr>
       \<and> models (refreshGlobalModels e st) = getModels_result e
       \<and> filter gm_puter (models (refreshGlobalModels e st)) = filter gm_puter (getModels_result e)"
  using assms by (simp add: refreshGlobalModels_def)

theorem refreshGlobalModels_disabled_witness:
  "\<not> puterEnabled (sample_state\<lparr>puterEnabled := False, customModels := [llama]\<rparr>)
   \<and> puterSignedIn (sample_state\<lparr>puterEnabled := False, customModels := [llama]\<rparr>)
   \<and> models (refreshGlobalModels sample_env
               (sample_state\<lparr>puterEnabled := False, customModels := [llama]\<rparr>)) = sample_base"
  using refreshGlobalModels_disabled
      [of "sample_state\<lparr>puterEnabled := False, customModels := [llama]\<rparr>" sample_env]
  by (simp add: sample_state_def sample_env_def)


lemma curated_truthy:
  "\<forall>c \<in> set CURATED_PUTER_MODELS. pm_id c \<noteq> [] \<and> truthy (pm_name c)"
  by (simp add: CURATED_PUTER_MODELS_def entry_def js_def)

lemma curated_nonempty: "CURATED_PUTER_MODELS \<noteq> []"
  by (simp add: CURATED_PUTER_MODELS_def)

lemma formatPuterModel_prefixed:
  "pm_id c \<noteq> [] \<Longrightarrow> truthy (pm_name c) \<Longrightarrow> formatPuterModel c = prefixed c"
  by (cases "pm_name c") (simp_all add: formatPuterModel_def prefixed_def or_else_def)

lemma getModelsWithCustom_Nil: "getModelsWithCustom [] = CURATED_PUTER_MODELS"
  by (simp add: getModelsWithCustom_def getCuratedModels_def)

text \<open>
  Claim C6, as amended. \<open>refreshGlobalModels\<close> appends the provider's models under the guard
  \<open>$puterEnabled && PuterAPI.isPuterAvailable()\<close>. With the provider enabled, the SDK global
  present and no custom model, the global list is the list of the other providers followed by
  the curated catalog in its order, each entry with its id after \<open>puter/\<close>, its name after
  \<open>Puter: \<close>, owner \<open>puter\<close> and both flags true.
\<close>

theorem refreshGlobalModels_enabled:
  assumes "puterEnabled st" and "isPuterAvailable (window_puter e)" and "customModels st = []"
  shows "models (refreshGlobalModels e st)
       = getModels_result e @ map prefixed CURATED_PUTER_MODELS"
proof -
  have "map formatPuterModel CURATED_PUTER_MODELS = map prefixed CURATED_PUTER_MODELS"
    by (rule map_cong) (use curated_truthy formatPuterModel_prefixed in auto)
  then show ?thesis
    using assms curated_nonempty
    by (simp add: refreshGlobalModels_def getModelsWithCustom_Nil)
qed

theorem refreshGlobalModels_enabled_witness:
  "models (refreshGlobalModels sample_env sample_state)
     = sample_base @ map prefixed CURATED_PUTER_MODELS
   \<and> length (models (refreshGlobalModels sample_env sample_state)) = 22
   \<and> models (refreshGlobalModels sample_env sample_state) ! 1
     = \<lparr>gm_id = js ''puter/gpt-4o'', gm_name = js ''Puter: GPT-4o'', gm_owned_by = js ''puter'',
        gm_external = True, gm_puter = True\<rparr>"
proof -
  have "models (refreshGlobalModels sample_env sample_state)
     = sample_base @ map prefixed CURATED_PUTER_MODELS"
    using refreshGlobalModels_enabled [of sample_state sample_env]
    by (simp add: sample_state_def sample_env_def isPuterAvailable_def)
  then show ?thesis
    by (simp add: sample_base_def CURATED_PUTER_MODELS_def prefixed_def entry_def js_def)
qed

text \<open>
  The claim as written fails where the enabled flag is set and the SDK global is absent (the
  flag is loaded from the settings by \<open>onMount\<close> without a look at the SDK): the global list is
  then the list of the other providers alone.
\<close>

theorem refreshGlobalModels_enabled_counterexample:
  "puterEnabled sample_state \<and> customModels sample_state = []
   \<and> models (refreshGlobalModels absent_env sample_state) = sample_base
   \<and> models (refreshGlobalModels absent_env sample_state)
       \<noteq> getModels_result absent_env @ map prefixed CURATED_PUTER_MODELS"
  using curated_nonempty
  by (simp add: refreshGlobalModels_def absent_env_def sample_state_def isPuterAvailable_def)

subsection \<open>The merged list\<close>

lemma split_first: "first (split s c) = Some (takeWhile (\<lambda>x. x \<noteq> c) s)"
  by (induction s) (auto split: list.splits)

lemma trim_nonempty: "trim s \<noteq> [] \<Longrightarrow> s \<noteq> []"
  by (auto simp: trim_def)

lemma trim_llama: "trim (cm_id llama) = cm_id llama"
  by (simp add: llama_def trim_def isWhiteSpace_def js_def)

lemma llama_nonempty: "cm_id llama \<noteq> []"
  by (simp add: llama_def js_def)

lemma llama_not_curated: "cm_id llama \<notin> pm_id ` set CURATED_PUTER_MODELS"
  by (simp add: llama_def CURATED_PUTER_MODELS_def entry_def js_def)

lemma trim_sample_id: "trim (js '' gpt-4o '') = js ''gpt-4o''"
  by (simp add: trim_def isWhiteSpace_def js_def)

lemma gpt4o_curated: "js ''gpt-4o'' \<in> pm_id ` set CURATED_PUTER_MODELS"
  by (simp add: CURATED_PUTER_MODELS_def entry_def)

text \<open>
  Claim C5. \<open>getModelsWithCustom\<close> returns the curated catalog followed by the custom entries
  whose trimmed id is not empty and is not a curated id, in their order, each as \<open>formatted\<close>
  has it: id and name are the trimmed id; the provider is what precedes the first \<open>:\<close> of the
  entry's id when the id has one (the id as stored in the entry: \<open>includes\<close> and \<open>split\<close> are
  applied to \<open>m.id\<close>), and \<open>custom\<close> otherwise; the endpoint is the trimmed endpoint, absent
  when the entry has none or it trims to the empty string.
\<close>

theorem getModelsWithCustom_merged:
  "getModelsWithCustom cms =
     CURATED_PUTER_MODELS
     @ map formatted
         (filter (\<lambda>m. trim (cm_id m) \<noteq> [] \<and> trim (cm_id m) \<notin> set (map pm_id CURATED_PUTER_MODELS))
            cms)"
proof -
  have f: "filter (\<lambda>m. truthy (Some (cm_id m)) \<and> truthy (Some (trim (cm_id m)))
                     \<and> trim (cm_id m) \<notin> set (map pm_id CURATED_PUTER_MODELS)) cms
         = filter (\<lambda>m. trim (cm_id m) \<noteq> [] \<and> trim (cm_id m) \<notin> set (map pm_id CURATED_PUTER_MODELS))
             cms"
    by (rule filter_cong) (use trim_nonempty in auto)
  have g: "(\<lambda>m. \<lparr>pm_id = trim (cm_id m),
                 pm_name = Some (trim (cm_id m)),
                 pm_provider =
                   (if includes_str (cm_id m) colon then first (split (cm_id m) colon)
                    else Some (js ''custom'')),
                 pm_endpoint = or_else (map_option trim (cm_endpoint m)) None\<rparr>) = formatted"
    by (rule ext)
      (auto simp: formatted_def includes_str_def split_first or_else_def split: option.splits)
  show ?thesis
    unfolding getModelsWithCustom_def Let_def getCuratedModels_def f g by simp
qed

text \<open>
  The scenario of the specification: the custom model
  \<open>openrouter:meta-llama/llama-3.1-8b-instruct\<close> with no endpoint is merged with provider
  \<open>openrouter\<close>, and a custom entry that trims to a curated id is left out.
\<close>

theorem getModelsWithCustom_merged_witness:
  "getModelsWithCustom [llama, \<lparr>cm_id = js '' gpt-4o '', cm_endpoint = None\<rparr>]
     = CURATED_PUTER_MODELS
       @ [\<lparr>pm_id = js ''openrouter:meta-llama/llama-3.1-8b-instruct'',
           pm_name = Some (js ''openrouter:meta-llama/llama-3.1-8b-instruct''),
           pm_provider = Some (js ''openrouter''),
           pm_endpoint = None\<rparr>]"
proof -
  have "formatted llama
      = \<lparr>pm_id = js ''openrouter:meta-llama/llama-3.1-8b-instruct'',
         pm_name = Some (js ''openrouter:meta-llama/llama-3.1-8b-instruct''),
         pm_provider = Some (js ''openrouter''),
         pm_endpoint = None\<rparr>"
    unfolding formatted_def trim_llama by (simp add: llama_def colon_def js_def)
  then show ?thesis
    using getModelsWithCustom_merged [of "[llama, \<lparr>cm_id = js '' gpt-4o '', cm_endpoint = None\<rparr>]"]
    by (simp add: trim_llama llama_nonempty llama_not_curated trim_sample_id gpt4o_curated)
qed


subsection \<open>The controller\<close>

lemma trim_llama_typed:
  "trim (js ''openrouter:meta-llama/llama-3.1-8b-instruct  '') = cm_id llama"
  by (simp add: llama_def trim_def isWhiteSpace_def js_def)

text \<open>
  Claim C1, as amended. \<open>addCustomModel\<close> compares the trimmed id with the ids of the custom
  list only. When the trimmed id is empty or is the id of a custom entry, the custom list, the
  settings, the writes and the global list are unchanged and an error notification is shown;
  otherwise exactly one entry is appended, with the trimmed id and the trimmed endpoint (absent
  when it trims to the empty string), the list is written to the settings and a success
  notification is shown. Curated ids are not looked at.
\<close>

theorem addCustomModel_validation:
  "(if trim (newCustomModelId st) = []
       \<or> trim (newCustomModelId st) \<in> set (map cm_id (customModels st))
    then customModels (addCustomModel e st) = customModels st
       \<and> settings (addCustomModel e st) = settings st
       \<and> saved (addCustomModel e st) = saved st
       \<and> models (addCustomModel e st) = models st
       \<and> (\<exists>key. toasts (addCustomModel e st) = toasts st @ [toast_error key])
    else customModels (addCustomModel e st)
           = customModels st
             @ [\<lparr>cm_id = trim (newCustomModelId st),
                 cm_endpoint = (if trim (newCustomModelEndpoint st) = [] then None
                                else Some (trim (newCustomModelEndpoint st)))\<rparr>]
       \<and> s_puterCustomModels (settings (addCustomModel e st))
           = Some (map Object (customModels (addCustomModel e st)))
       \<and> saved (addCustomModel e st) = saved st @ [settings (addCustomModel e st)]
       \<and> toasts (addCustomModel e st) = toasts st @ [toast_success (js ''Custom model added'')])"
proof -
  have m: "list_ex (\<lambda>m. cm_id m = trim (newCustomModelId st)) (customModels st)
         \<longleftrightarrow> trim (newCustomModelId st) \<in> set (map cm_id (customModels st))"
    by (auto simp: list_ex_iff intro: rev_image_eqI)
  show ?thesis
    unfolding addCustomModel_def Let_def m
    by (simp add: refreshGlobalModels_def refreshModels_def saveCustomModels_def or_else_def
        Let_def)
qed

text \<open>A second addition of a registered id is refused; its first addition is accepted.\<close>

theorem addCustomModel_validation_witness:
  "customModels (addCustomModel sample_env llama_state) = [llama]
   \<and> saved (addCustomModel sample_env llama_state) = []
   \<and> customModels (addCustomModel sample_env (sample_state\<lparr>newCustomModelId := cm_id llama\<rparr>))
     = [llama]
   \<and> toasts (addCustomModel sample_env (sample_state\<lparr>newCustomModelId := cm_id llama\<rparr>))
     = [toast_success (js ''Custom model added'')]"
proof -
  have a: "trim (newCustomModelId llama_state) = cm_id llama" "customModels llama_state = [llama]"
    "saved llama_state = []"
    by (simp_all add: llama_state_def trim_llama_typed sample_state_def)
  have b: "trim (newCustomModelId (sample_state\<lparr>newCustomModelId := cm_id llama\<rparr>)) = cm_id llama"
    "customModels (sample_state\<lparr>newCustomModelId := cm_id llama\<rparr>) = []"
    "newCustomModelEndpoint (sample_state\<lparr>newCustomModelId := cm_id llama\<rparr>) = []"
    "toasts (sample_state\<lparr>newCustomModelId := cm_id llama\<rparr>) = []"
    by (simp_all add: trim_llama sample_state_def)
  have t: "trim [] = []"
    by (simp add: trim_def)
  have c: "\<lparr>cm_id = cm_id llama, cm_endpoint = None\<rparr> = llama"
    by (simp add: llama_def)
  show ?thesis
    using addCustomModel_validation [of llama_state sample_env]
      addCustomModel_validation [of "sample_state\<lparr>newCustomModelId := cm_id llama\<rparr>" sample_env]
    unfolding a b t by (simp add: llama_nonempty c)
qed

text \<open>
  The claim as written fails for a curated id: with an empty custom list, the id \<open>gpt-4o\<close> typed
  between two spaces is appended to the custom list and reported as added.
  \<open>getModelsWithCustom\<close> leaves such an entry out of the merged list.
\<close>

theorem addCustomModel_validation_counterexample:
  "trim (newCustomModelId sample_state) \<in> set (map pm_id CURATED_PUTER_MODELS)
   \<and> customModels sample_state = []
   \<and> customModels (addCustomModel sample_env sample_state)
     = [\<lparr>cm_id = js ''gpt-4o'', cm_endpoint = None\<rparr>]
   \<and> toasts (addCustomModel sample_env sample_state) = [toast_success (js ''Custom model added'')]"
proof -
  have t: "trim (newCustomModelId sample_state) = js ''gpt-4o''"
    by (simp add: sample_state_def trim_sample_id)
  have n: "js ''gpt-4o'' \<noteq> []"
    by (simp add: js_def)
  have s: "customModels sample_state = []" "newCustomModelEndpoint sample_state = []"
    "toasts sample_state = []"
    by (simp_all add: sample_state_def)
  show ?thesis
    unfolding addCustomModel_def Let_def t
    using n gpt4o_curated
    by (simp add: s refreshGlobalModels_def refreshModels_def saveCustomModels_def or_else_def
        Let_def trim_def)
qed

text \<open>
  Claim C8. On load, the custom list is the stored list with each plain string \<open>foo\<close> turned
  into the object with id \<open>foo\<close> and no endpoint and each object kept as it is; and loading the
  settings that \<open>saveCustomModels\<close> has written, into any state, gives back the custom list that
  was saved.
\<close>

theorem onMount_roundtrip:
  "customModels (onMount e (st\<lparr>settings := (settings st)\<lparr>s_puterCustomModels := Some ms\<rparr>\<rparr>))
     = map (\<lambda>m. case m of Legacy foo \<Rightarrow> \<lparr>cm_id = foo, cm_endpoint = None\<rparr> | Object c \<Rightarrow> c) ms
   \<and> customModels (onMount e (st'\<lparr>settings := settings (saveCustomModels st)\<rparr>)) = customModels st"
proof -
  have c: "\<And>x. customModels (onMount e x) =
             (case s_puterCustomModels (settings x) of
                None \<Rightarrow> customModels x
              | Some ms \<Rightarrow> map migrate ms)"
    by (simp add: onMount_def Let_def set_user_def refreshModels_def split: option.splits)
  have m: "migrate
         = (\<lambda>m. case m of Legacy foo \<Rightarrow> \<lparr>cm_id = foo, cm_endpoint = None\<rparr> | Object c \<Rightarrow> c)"
    by (rule ext) (simp add: migrate_def)
  have "map migrate (map Object (customModels st)) = customModels st"
    by (simp add: migrate_def comp_def)
  then show ?thesis
    by (simp add: c saveCustomModels_def Let_def flip: m)
qed

theorem onMount_roundtrip_witness:
  "customModels (onMount sample_env
      (llama_state\<lparr>settings := (settings llama_state)
         \<lparr>s_puterCustomModels := Some [Legacy (js ''foo''), Object llama]\<rparr>\<rparr>))
     = [\<lparr>cm_id = js ''foo'', cm_endpoint = None\<rparr>, llama]
   \<and> customModels (onMount sample_env
                     (sample_state\<lparr>settings := settings (saveCustomModels llama_state)\<rparr>))
     = [llama]"
proof -
  have "customModels llama_state = [llama]"
    by (simp add: llama_state_def)
  then show ?thesis
    using onMount_roundtrip
      [where e = sample_env and st = llama_state
         and ms = "[Legacy (js ''foo''), Object llama]" and st' = sample_state]
    by simp
qed

text \<open>
  Claim C9. \<open>handleToggle\<close> runs with the switch already on. When the SDK global is absent, it
  shows the notification \<open>Puter SDK not available\<close>, sets \<open>puterEnabled\<close> back to false and
  returns: the settings store is as before and nothing is written by \<open>updateUserSettings\<close>.
\<close>

theorem handleToggle_sdk_absent:
  assumes "puterEnabled st" and "\<not> isPuterAvailable (window_puter e)"
  shows "handleToggle e st
           = st\<lparr>toasts := toasts st @ [toast_error (js ''Puter SDK not available'')],
                 puterEnabled := False\<rparr>
       \<and> puterEnabled (handleToggle e st) = False
       \<and> toasts (handleToggle e st) = toasts st @ [toast_error (js ''Puter SDK not available'')]
       \<and> saved (handleToggle e st) = saved st
       \<and> settings (handleToggle e st) = settings st"
  using assms by (simp add: handleToggle_def)

theorem handleToggle_sdk_absent_witness:
  "puterEnabled sample_state
   \<and> window_puter absent_env = None
   \<and> puterEnabled (handleToggle absent_env sample_state) = False
   \<and> toasts (handleToggle absent_env sample_state) = [toast_error (js ''Puter SDK not available'')]
   \<and> saved (handleToggle absent_env sample_state) = []
   \<and> settings (handleToggle absent_env sample_state)
     = \<lparr>s_puterEnabled = None, s_puterCustomModels = None\<rparr>"
  using handleToggle_sdk_absent [of sample_state absent_env]
  by (simp add: sample_state_def absent_env_def isPuterAvailable_def)

end
